theory Spec2Isabelle
  imports Complex_Main
begin

section \<open>Python values, errors and names\<close>

text \<open>
  The fit classes of \<^verbatim>\<open>flavio/statistics/fits.py\<close> are embedded as functions over
  records. Every \<^verbatim>\<open>raise\<close>, failed \<^verbatim>\<open>assert\<close>, missing key, index out of range and
  unbound name of the Python is a value \<open>Inl e\<close> of a sum type. Floating point numbers
  are modelled as real numbers: the properties below are about which entry receives
  which expression, not about rounding.
\<close>

datatype error =
    AssertionError string
  | ValueError string
  | NameError string
  | TypeError string
  | KeyError string
  | IndexError

fun and_then :: "error + 'a \<Rightarrow> ('a \<Rightarrow> error + 'b) \<Rightarrow> error + 'b" where
  "and_then (Inl e) f = Inl e"
| "and_then (Inr v) f = f v"

text \<open>
  The names bound at module level of \<^verbatim>\<open>fits.py\<close>: the three imports of lines 7 to 9,
  the three names imported from \<^verbatim>\<open>flavio.statistics.probability\<close> in line 10, and the
  three classes the module defines. A name that is neither a local of the running
  function nor one of these (nor a builtin) raises \<^verbatim>\<open>NameError\<close> when it is read.
\<close>

definition module_globals :: "string list" where
  "module_globals =
     [''flavio'', ''np'', ''copy'',
      ''NormalDistribution'', ''MultivariateNormalDistribution'', ''convolve_distributions'',
      ''Fit'', ''BayesianFit'', ''FastFit'']"

definition load_global :: "string \<Rightarrow> error + unit" where
  "load_global n = (if n \<in> set module_globals then Inr () else Inl (NameError n))"

text \<open>An observable reference: a bare name, or a tuple of a name and extra arguments.\<close>

datatype observable = Obs string | ObsArgs string "real list"

fun obs_name :: "observable \<Rightarrow> string" where
  "obs_name (Obs n) = n"
| "obs_name (ObsArgs n args) = n"

fun obs_args :: "observable \<Rightarrow> real list" where
  "obs_args (Obs n) = []"
| "obs_args (ObsArgs n args) = args"

section \<open>The fit objects\<close>

text \<open>
  \<^verbatim>\<open>ParameterConstraints\<close> is not part of these sources. An object of it is taken as the
  record of what its queries answer: the keys of \<^verbatim>\<open>_parameters\<close>, the dictionary
  \<^verbatim>\<open>get_central_all()\<close> returns, the dictionary the \<open>k\<close>-th call of \<^verbatim>\<open>get_random_all()\<close>
  returns, and the values of the dictionary \<^verbatim>\<open>get_logprobability_all\<close> returns.
\<close>

record parameter_constraints =
  parameters :: "string list"
  get_central_all :: "string \<rightharpoonup> real"
  get_random_all :: "nat \<Rightarrow> (string \<rightharpoonup> real)"
  get_logprobability_all :: "(string \<rightharpoonup> real) \<Rightarrow> string set \<Rightarrow> real list"

type_synonym addr = nat

text \<open>
  The fields \<^verbatim>\<open>Fit.__init__\<close> stores (lines 60 to 70). \<^verbatim>\<open>par_obj\<close> is a reference to the
  registry object, which lives in the world below; \<^verbatim>\<open>parameters_central\<close> is a
  reference to a dictionary object of the heap.
\<close>

record fit =
  name :: string
  parameters_central :: addr
  fit_parameters :: "string list"
  nuisance_parameters :: "string list"
  exclude_measurements :: "string list option"
  include_measurements :: "string list option"
  fit_wc_names :: "string list"
  fit_wc_function :: "((string \<rightharpoonup> real) \<Rightarrow> error + (string \<rightharpoonup> complex)) option"
  fit_wc_priors :: "parameter_constraints option"
  observables :: "observable list"
  input_scale :: real

record bayesian_fit = fit +
  dimension :: nat

record fast_fit = bayesian_fit +
  measurements :: "unit option"

section \<open>Marshalling between the flat vector and the structured dictionary\<close>

text \<open>
  \<^verbatim>\<open>{ p: x[i + off] for i, p in enumerate(names) }\<close>: a later occurrence of a name
  overwrites an earlier one; an index past the end of \<open>x\<close> raises.
\<close>

fun dict_comprehension ::
  "real list \<Rightarrow> nat \<Rightarrow> (nat \<times> string) list \<Rightarrow> (string \<rightharpoonup> real) \<Rightarrow> error + (string \<rightharpoonup> real)" where
  "dict_comprehension x off [] acc = Inr acc"
| "dict_comprehension x off ((i, p) # rest) acc =
     (if i + off < length x then dict_comprehension x off rest (acc(p \<mapsto> x ! (i + off)))
      else Inl IndexError)"

type_synonym structured = "string \<rightharpoonup> (string \<rightharpoonup> real)"

definition BayesianFit_array_to_dict :: "'a bayesian_fit_scheme \<Rightarrow> real list \<Rightarrow> error + structured" where
  "BayesianFit_array_to_dict self x =
     (let n_fit_p = length (fit_parameters self);
          n_nui_p = length (nuisance_parameters self)
      in and_then (dict_comprehension x 0 (enumerate 0 (fit_parameters self)) Map.empty) (\<lambda>fp.
         and_then (dict_comprehension x n_fit_p (enumerate 0 (nuisance_parameters self)) Map.empty) (\<lambda>np.
         and_then (dict_comprehension x (n_fit_p + n_nui_p) (enumerate 0 (fit_wc_names self)) Map.empty) (\<lambda>wc.
         Inr [''fit_parameters'' \<mapsto> fp, ''nuisance_parameters'' \<mapsto> np, ''fit_wc'' \<mapsto> wc]))))"

text \<open>\<^verbatim>\<open>[d[k][p] for p in names]\<close>: \<^verbatim>\<open>d[k]\<close> is only evaluated when there is a name.\<close>

fun list_comprehension :: "structured \<Rightarrow> string \<Rightarrow> string list \<Rightarrow> error + real list" where
  "list_comprehension d k [] = Inr []"
| "list_comprehension d k (p # ps) =
     (case d k of
        None \<Rightarrow> Inl (KeyError k)
      | Some sub \<Rightarrow>
          (case sub p of
             None \<Rightarrow> Inl (KeyError p)
           | Some v \<Rightarrow> and_then (list_comprehension d k ps) (\<lambda>vs. Inr (v # vs))))"

text \<open>
  \<^verbatim>\<open>arr[lo:hi] = vals\<close> on a one-dimensional numpy array: the list must have the length
  of the slice, or one element, which is then broadcast.
\<close>

definition slice_assign :: "real list \<Rightarrow> nat \<Rightarrow> nat \<Rightarrow> real list \<Rightarrow> error + real list" where
  "slice_assign arr lo hi vals =
     (let lo' = min lo (length arr);
          hi' = max lo' (min hi (length arr));
          m = hi' - lo'
      in if length vals = m then Inr (take lo' arr @ vals @ drop hi' arr)
         else if length vals = 1 then Inr (take lo' arr @ replicate m (hd vals) @ drop hi' arr)
         else Inl (ValueError ''could not broadcast input array''))"

definition BayesianFit_dict_to_array :: "'a bayesian_fit_scheme \<Rightarrow> structured \<Rightarrow> error + real list" where
  "BayesianFit_dict_to_array self d =
     (let n_fit_p = length (fit_parameters self);
          n_nui_p = length (nuisance_parameters self);
          n_wc = length (fit_wc_names self);
          arr = replicate (n_fit_p + n_nui_p + n_wc) 0
      in and_then (list_comprehension d ''fit_parameters'' (fit_parameters self)) (\<lambda>v1.
         and_then (slice_assign arr 0 n_fit_p v1) (\<lambda>arr.
         and_then (list_comprehension d ''nuisance_parameters'' (nuisance_parameters self)) (\<lambda>v2.
         and_then (slice_assign arr n_fit_p (n_fit_p + n_nui_p) v2) (\<lambda>arr.
         and_then (list_comprehension d ''fit_wc'' (fit_wc_names self)) (\<lambda>v3.
         slice_assign arr (n_fit_p + n_nui_p) (length arr) v3))))))"

text \<open>\<^verbatim>\<open>FastFit.array_to_dict\<close> (lines 414 to 422): two sub-dictionaries, no nuisance slot.\<close>

definition FastFit_array_to_dict :: "'a fast_fit_scheme \<Rightarrow> real list \<Rightarrow> error + structured" where
  "FastFit_array_to_dict self x =
     (let n_fit_p = length (fit_parameters self)
      in and_then (dict_comprehension x 0 (enumerate 0 (fit_parameters self)) Map.empty) (\<lambda>fp.
         and_then (dict_comprehension x n_fit_p (enumerate 0 (fit_wc_names self)) Map.empty) (\<lambda>wc.
         Inr [''fit_parameters'' \<mapsto> fp, ''fit_wc'' \<mapsto> wc])))"

text \<open>
  \<^verbatim>\<open>FastFit.dict_to_array\<close> (lines 424 to 432). Line 429 reads \<^verbatim>\<open>n_nui_p\<close>, which the
  function never assigns, so Python looks it up among the module's globals. All of
  those are modules, classes and functions: had the name been one of them, adding it
  to an integer would raise \<^verbatim>\<open>TypeError\<close>. The lines after 429 cannot be reached.
\<close>

definition FastFit_dict_to_array :: "'a fast_fit_scheme \<Rightarrow> structured \<Rightarrow> error + real list" where
  "FastFit_dict_to_array self d =
     and_then (load_global ''n_nui_p'') (\<lambda>_.
       Inl (TypeError ''unsupported operand type(s) for +''))"

section \<open>The registries and the world\<close>

text \<open>A numpy value: a scalar, a one-dimensional or a two-dimensional array.\<close>

datatype ndarray = Scalar real | Vec "real list" | Mat "real list list"

text \<open>
  The probability distributions of \<^verbatim>\<open>flavio.statistics.probability\<close> are not part of
  these sources. A constraint of a measurement is taken with the two attributes the
  fit reads, \<^verbatim>\<open>central_value\<close> and \<^verbatim>\<open>support\<close>; for a constraint over \<open>n\<close> observables the
  support is the array of shape \<open>(2, n)\<close> whose first row holds the lower and whose
  second row holds the upper extreme of each observable's axis. The distributions
  that \<^verbatim>\<open>make_measurement\<close> builds are kept as the terms of their constructor calls.
\<close>

record constraint =
  central_value :: ndarray
  support :: ndarray

datatype distribution =
    Experimental constraint
  | DeltaDistribution ndarray
  | NormalDistribution ndarray real
  | MultivariateNormalDistribution ndarray "real list list"
  | convolve_distributions "distribution list"

text \<open>A measurement: its list \<^verbatim>\<open>_constraints\<close> and what \<^verbatim>\<open>all_parameters\<close> returns.\<close>

record measurement =
  constraints :: "(constraint \<times> observable list) list"
  all_parameters :: "observable list"

text \<open>
  The state outside the fit object: the dictionary objects (a heap with a counter
  for fresh addresses), the parameter registry the fit's \<^verbatim>\<open>par_obj\<close> refers to, the
  instance dictionaries of \<^verbatim>\<open>Observable\<close>, \<^verbatim>\<open>Measurement\<close> (in insertion order) and
  \<^verbatim>\<open>PseudoMeasurement\<close>, and the number of samples drawn so far from the parameter
  registry.
\<close>

record world =
  heap :: "addr \<Rightarrow> (string \<rightharpoonup> real)"
  next_addr :: addr
  par_obj :: parameter_constraints
  Observable_instances :: "string list"
  Measurement_instances :: "(string \<times> measurement) list"
  PseudoMeasurement_instances :: "string \<rightharpoonup> (distribution \<times> observable list) list"
  draws :: nat

text \<open>Sequencing of calls that may raise and that change the world.\<close>

fun then_w ::
  "(error + 'a) \<times> world \<Rightarrow> ('a \<Rightarrow> world \<Rightarrow> (error + 'b) \<times> world) \<Rightarrow> (error + 'b) \<times> world" where
  "then_w (Inl e, w) f = (Inl e, w)"
| "then_w (Inr v, w) f = f v w"

definition alloc :: "(string \<rightharpoonup> real) \<Rightarrow> world \<Rightarrow> addr \<times> world" where
  "alloc d w = (next_addr w, w\<lparr>heap := (heap w)(next_addr w := d), next_addr := Suc (next_addr w)\<rparr>)"

text \<open>
  \<^verbatim>\<open>flavio.WilsonCoefficients()\<close>, with the argument of \<^verbatim>\<open>set_initial\<close> once it was
  called.
\<close>

datatype wilson_coefficients = WilsonCoefficients "((string \<rightharpoonup> complex) \<times> real) option"

text \<open>
  What the fit calls and these sources do not define: the interpreter's \<^verbatim>\<open>str\<close> of a
  tuple and of a set of strings, the prediction function of an observable (by name,
  with the parameter dictionary, the Wilson coefficients and the extra arguments),
  \<^verbatim>\<open>np.cov\<close> (taken to return a two-dimensional array, as it does for two or more
  rows), and the values of the dictionary that \<^verbatim>\<open>get_logprobability_all\<close> of a
  (pseudo-)measurement returns for its constraints, a dictionary of predictions and a
  set of excluded observables. The prediction functions and the distribution
  constructors are taken not to raise.
\<close>

record env =
  str_tuple :: "string \<Rightarrow> real list \<Rightarrow> string"
  str_set :: "string set \<Rightarrow> string"
  prediction_par :: "string \<Rightarrow> (string \<rightharpoonup> real) \<Rightarrow> wilson_coefficients \<Rightarrow> real list \<Rightarrow> real"
  np_cov :: "real list list \<Rightarrow> real list list"
  logprobability_all ::
    "(distribution \<times> observable list) list \<Rightarrow> (observable \<rightharpoonup> real) \<Rightarrow> observable set \<Rightarrow> real list"

section \<open>Fit: construction and the relevant measurements\<close>

fun join :: "string \<Rightarrow> string list \<Rightarrow> string" where
  "join sep [] = []"
| "join sep [s] = s"
| "join sep (s # t # ts) = s @ sep @ join sep (t # ts)"

fun is_str :: "observable \<Rightarrow> bool" where
  "is_str (Obs n) = True"
| "is_str (ObsArgs n args) = False"

text \<open>
  Python's \<^verbatim>\<open>str\<close> of an observable: the name itself, or the rendering of the tuple,
  which is the interpreter's and is taken as a parameter. \<^verbatim>\<open>str\<close> of a set of strings
  is taken as a parameter too.
\<close>

fun str_observable :: "(string \<Rightarrow> real list \<Rightarrow> string) \<Rightarrow> observable \<Rightarrow> string" where
  "str_observable render (Obs n) = n"
| "str_observable render (ObsArgs n args) = render n args"

text \<open>Lines 29 to 31. Here and below \<^verbatim>\<open>assert\<close> statements are taken to be enabled.\<close>

fun check_parameters :: "string list \<Rightarrow> string list \<Rightarrow> error + unit" where
  "check_parameters keys [] = Inr ()"
| "check_parameters keys (p # ps) =
     (if p \<in> set keys then check_parameters keys ps
      else Inl (AssertionError (''Parameter '' @ p @ '' not found in Constraints'')))"

text \<open>Lines 32 to 40.\<close>

fun check_observables ::
  "(string \<Rightarrow> real list \<Rightarrow> string) \<Rightarrow> string list \<Rightarrow> observable list \<Rightarrow> error + unit" where
  "check_observables render known [] = Inr ()"
| "check_observables render known (obs # rest) =
     (if obs_name obs \<in> set known then check_observables render known rest
      else Inl (ValueError (''Observable '' @ str_observable render obs @ '' not found!'')))"

text \<open>
  Lines 41 to 46. \<^verbatim>\<open>missing_obs\<close> is a Python set, whose iteration order is not
  specified; here its elements are listed in the order of \<^verbatim>\<open>observables\<close>, and the
  theorems below only use which elements it has. \<^verbatim>\<open>', '.join\<close> raises \<^verbatim>\<open>TypeError\<close> on
  an element that is not a string.
\<close>

definition obs_measured :: "(string \<times> measurement) list \<Rightarrow> observable list" where
  "obs_measured instances = concat (map (\<lambda>(m_name, m_obj). all_parameters m_obj) instances)"

definition missing_obs :: "(string \<times> measurement) list \<Rightarrow> observable list \<Rightarrow> observable list" where
  "missing_obs instances obs =
     remdups (filter (\<lambda>ob. ob \<notin> set (filter (\<lambda>m. m \<in> set obs) (obs_measured instances))) obs)"

definition check_constrained :: "(string \<times> measurement) list \<Rightarrow> observable list \<Rightarrow> error + unit" where
  "check_constrained instances obs =
     (let missing = missing_obs instances obs
      in if missing = [] then Inr ()
         else if list_all is_str missing
         then Inl (AssertionError
                (''No measurement found for the observables: '' @ join '', '' (map obs_name missing)))
         else Inl (TypeError ''sequence item: expected str instance, tuple found''))"

text \<open>Lines 53 to 57: any failure of the probe call, also calling \<^verbatim>\<open>None\<close>, is caught.\<close>

definition check_wc_function ::
  "string list \<Rightarrow> ((string \<rightharpoonup> real) \<Rightarrow> error + (string \<rightharpoonup> complex)) option \<Rightarrow> error + unit" where
  "check_wc_function names f =
     (if names = [] then Inr ()
      else case f of
        None \<Rightarrow> Inl (ValueError ''Error in calling the Wilson coefficient function'')
      | Some g \<Rightarrow>
          (case g (\<lambda>n. if n \<in> set names then Some (1 / 1000000) else None) of
             Inl e \<Rightarrow> Inl (ValueError ''Error in calling the Wilson coefficient function'')
           | Inr v \<Rightarrow> Inr ()))"

text \<open>
  \<^verbatim>\<open>Fit.__init__\<close> (lines 15 to 70). The registry \<^verbatim>\<open>par_obj\<close> is the one of the world.
  Line 61 stores the dictionary that \<^verbatim>\<open>get_central_all()\<close> returns at that moment, a
  new object. What the parent class \<^verbatim>\<open>NamedInstanceClass\<close> does with the name in line 59
  is not part of these sources and not modelled.
\<close>

definition Fit_init ::
  "env \<Rightarrow> string \<Rightarrow> string list \<Rightarrow> string list \<Rightarrow> observable list \<Rightarrow> string list \<Rightarrow>
   ((string \<rightharpoonup> real) \<Rightarrow> error + (string \<rightharpoonup> complex)) option \<Rightarrow> parameter_constraints option \<Rightarrow>
   real \<Rightarrow> string list option \<Rightarrow> string list option \<Rightarrow> world \<Rightarrow> error + (fit \<times> world)" where
  "Fit_init E nm fit_ps nuisance_ps obs wc_names wc_function wc_priors scale excl incl w =
     and_then (check_parameters (parameters (par_obj w)) (fit_ps @ nuisance_ps)) (\<lambda>_.
     and_then (check_observables (str_tuple E) (Observable_instances w) obs) (\<lambda>_.
     and_then (check_constrained (Measurement_instances w) obs) (\<lambda>_.
     if excl \<noteq> None \<and> incl \<noteq> None
     then Inl (ValueError ''The options exclude_measurements and include_measurements must not be specified simultaneously'')
     else if set fit_ps \<inter> set nuisance_ps \<noteq> {}
     then Inl (AssertionError (''Parameters appearing as fit_parameters and nuisance_parameters: ''
                 @ str_set E (set fit_ps \<inter> set nuisance_ps)))
     else and_then (check_wc_function wc_names wc_function) (\<lambda>_.
       case alloc (get_central_all (par_obj w)) w of (a, w') \<Rightarrow>
         Inr (\<lparr>name = nm, parameters_central = a, fit_parameters = fit_ps,
               nuisance_parameters = nuisance_ps, exclude_measurements = excl,
               include_measurements = incl, fit_wc_names = wc_names,
               fit_wc_function = wc_function, fit_wc_priors = wc_priors,
               observables = obs, input_scale = scale\<rparr>, w')))))"

text \<open>
  The property \<^verbatim>\<open>get_measurements\<close> (lines 102 to 120). \<^verbatim>\<open>list(set(...))\<close> has no
  specified order; the model lists the names in the order of the registry.
\<close>

definition get_measurements :: "'a fit_scheme \<Rightarrow> world \<Rightarrow> string list" where
  "get_measurements self w =
     (let all_measurements =
            map fst (filter (\<lambda>(m_name, m_obj). \<not> (set (all_parameters m_obj) \<inter> set (observables self) = {}))
                            (Measurement_instances w))
      in case exclude_measurements self of
           Some excl \<Rightarrow> remdups (filter (\<lambda>m. m \<notin> set excl) all_measurements)
         | None \<Rightarrow>
             (case include_measurements self of
                Some incl \<Rightarrow> remdups (filter (\<lambda>m. m \<in> set incl) all_measurements)
              | None \<Rightarrow> all_measurements))"

text \<open>\<^verbatim>\<open>BayesianFit.__init__\<close> (lines 155 to 157) and \<^verbatim>\<open>FastFit.__init__\<close> (lines 288 to 290).\<close>

definition BayesianFit_init ::
  "env \<Rightarrow> string \<Rightarrow> string list \<Rightarrow> string list \<Rightarrow> observable list \<Rightarrow> string list \<Rightarrow>
   ((string \<rightharpoonup> real) \<Rightarrow> error + (string \<rightharpoonup> complex)) option \<Rightarrow> parameter_constraints option \<Rightarrow>
   real \<Rightarrow> string list option \<Rightarrow> string list option \<Rightarrow> world \<Rightarrow> error + (bayesian_fit \<times> world)" where
  "BayesianFit_init E nm fit_ps nuisance_ps obs wc_names wc_function wc_priors scale excl incl w =
     and_then (Fit_init E nm fit_ps nuisance_ps obs wc_names wc_function wc_priors scale excl incl w)
       (\<lambda>(self, w').
          Inr (fit.extend self
                 (bayesian_fit.fields
                    (length (fit_parameters self) + length (nuisance_parameters self)
                     + length (fit_wc_names self))), w'))"

definition FastFit_init ::
  "env \<Rightarrow> string \<Rightarrow> string list \<Rightarrow> string list \<Rightarrow> observable list \<Rightarrow> string list \<Rightarrow>
   ((string \<rightharpoonup> real) \<Rightarrow> error + (string \<rightharpoonup> complex)) option \<Rightarrow> parameter_constraints option \<Rightarrow>
   real \<Rightarrow> string list option \<Rightarrow> string list option \<Rightarrow> world \<Rightarrow> error + (fast_fit \<times> world)" where
  "FastFit_init E nm fit_ps nuisance_ps obs wc_names wc_function wc_priors scale excl incl w =
     and_then (BayesianFit_init E nm fit_ps nuisance_ps obs wc_names wc_function wc_priors scale excl incl w)
       (\<lambda>(self, w'). Inr (bayesian_fit.extend self (fast_fit.fields None), w'))"

section \<open>FastFit: the pseudo-measurements\<close>

text \<open>\<^verbatim>\<open>[f(p) for p in ps]\<close> with a body that may raise.\<close>

fun map_err :: "('a \<Rightarrow> error + 'b) \<Rightarrow> 'a list \<Rightarrow> error + 'b list" where
  "map_err f [] = Inr []"
| "map_err f (p # ps) = and_then (f p) (\<lambda>v. and_then (map_err f ps) (\<lambda>vs. Inr (v # vs)))"

text \<open>\<^verbatim>\<open>list.index\<close>: the first position of the element, \<^verbatim>\<open>ValueError\<close> when there is none.\<close>

fun index :: "'a list \<Rightarrow> 'a \<Rightarrow> error + nat" where
  "index [] p = Inl (ValueError ''is not in list'')"
| "index (q # qs) p = (if q = p then Inr 0 else and_then (index qs p) (\<lambda>i. Inr (Suc i)))"

text \<open>Indexing a numpy array with a list of positions, and \<^verbatim>\<open>cov_sm[ppos][:,ppos]\<close>.\<close>

definition getitems :: "'a list \<Rightarrow> nat list \<Rightarrow> error + 'a list" where
  "getitems xs ppos = map_err (\<lambda>i. if i < length xs then Inr (xs ! i) else Inl IndexError) ppos"

definition submatrix :: "real list list \<Rightarrow> nat list \<Rightarrow> error + real list list" where
  "submatrix cov ppos = and_then (getitems cov ppos) (map_err (\<lambda>row. getitems row ppos))"

text \<open>The attribute \<^verbatim>\<open>.T\<close>, indexing with one position, and \<^verbatim>\<open>np.diff\<close>.\<close>

fun ndarray_T :: "ndarray \<Rightarrow> ndarray" where
  "ndarray_T (Scalar v) = Scalar v"
| "ndarray_T (Vec v) = Vec v"
| "ndarray_T (Mat []) = Mat []"
| "ndarray_T (Mat (row # rows)) = Mat (map (\<lambda>j. map (\<lambda>r. r ! j) (row # rows)) [0..<length row])"

fun getitem :: "ndarray \<Rightarrow> nat \<Rightarrow> error + ndarray" where
  "getitem (Scalar v) i = Inl IndexError"
| "getitem (Vec v) i = (if i < length v then Inr (Scalar (v ! i)) else Inl IndexError)"
| "getitem (Mat m) i = (if i < length m then Inr (Vec (m ! i)) else Inl IndexError)"

fun diffs :: "real list \<Rightarrow> real list" where
  "diffs (a # b # rest) = (b - a) # diffs (b # rest)"
| "diffs rest = []"

fun np_diff :: "ndarray \<Rightarrow> error + ndarray" where
  "np_diff (Scalar v) = Inl (ValueError ''diff requires input that is at least one dimensional'')"
| "np_diff (Vec v) = Inr (Vec (diffs v))"
| "np_diff (Mat m) = Inr (Mat (map diffs m))"

text \<open>Line 407: \<^verbatim>\<open>r = np.diff(constraint.support.T[1])[0]\<close>.\<close>

definition support_range :: "constraint \<Rightarrow> error + real" where
  "support_range c =
     and_then (getitem (ndarray_T (support c)) 1) (\<lambda>row.
     and_then (np_diff row) (\<lambda>d.
     and_then (getitem d 0) (\<lambda>r.
       case r of Scalar v \<Rightarrow> Inr v
               | _ \<Rightarrow> Inl (ValueError ''setting an array element with a sequence''))))"

text \<open>Lines 406 to 408: the loop over \<^verbatim>\<open>index_zero\<close>.\<close>

fun fix_zero :: "constraint \<Rightarrow> nat list \<Rightarrow> real list list \<Rightarrow> error + real list list" where
  "fix_zero c [] cov = Inr cov"
| "fix_zero c (i # rest) cov =
     and_then (support_range c) (\<lambda>r.
       fix_zero c rest (cov[i := (cov ! i)[i := (r / 100000)\<^sup>2]]))"

definition np_diag :: "real list list \<Rightarrow> real list" where
  "np_diag m = map (\<lambda>i. m ! i ! i) [0..<length m]"

text \<open>
  Lines 389 to 410: the theory distribution of one constraint block, from the
  submatrix \<^verbatim>\<open>cov_sm_p\<close>. Line 393 reads the name \<^verbatim>\<open>DeltaDistribution\<close>.
\<close>

definition constraint_th :: "constraint \<Rightarrow> real list list \<Rightarrow> nat list \<Rightarrow> error + distribution" where
  "constraint_th c cov_sm_p ppos =
     (if length ppos = 1
      then let std = sqrt (cov_sm_p ! 0 ! 0)
           in if std = 0
              then and_then (load_global ''DeltaDistribution'') (\<lambda>_.
                     Inr (DeltaDistribution (central_value c)))
              else Inr (NormalDistribution (central_value c) std)
      else let index_zero = filter (\<lambda>i. np_diag cov_sm_p ! i = 0) [0..<length (np_diag cov_sm_p)]
           in and_then (fix_zero c index_zero cov_sm_p) (\<lambda>cov_sm_p_fixed.
                Inr (MultivariateNormalDistribution (central_value c) cov_sm_p_fixed)))"

text \<open>Lines 386 to 411: the combined constraint of one block.\<close>

definition constraint_comb ::
  "observable list \<Rightarrow> real list list \<Rightarrow> constraint \<Rightarrow> observable list \<Rightarrow> error + distribution" where
  "constraint_comb obs cov_sm c ps =
     and_then (map_err (index obs) ps) (\<lambda>ppos.
     and_then (submatrix cov_sm ppos) (\<lambda>cov_sm_p.
     and_then (constraint_th c cov_sm_p ppos) (\<lambda>th.
       Inr (convolve_distributions [Experimental c, th]))))"

text \<open>
  Modelled from the spec: \<^verbatim>\<open>flavio.classes.PseudoMeasurement\<close> and its \<^verbatim>\<open>add_constraint\<close>
  are missing from these sources. After the spec, constructing one registers a new
  entry under its name, overwriting an earlier one of that name, and
  \<^verbatim>\<open>add_constraint\<close> adds one joint constraint over the given observables.
\<close>

definition PseudoMeasurement :: "string \<Rightarrow> world \<Rightarrow> world" where
  "PseudoMeasurement pm w =
     w\<lparr>PseudoMeasurement_instances := (PseudoMeasurement_instances w)(pm \<mapsto> [])\<rparr>"

definition add_constraint :: "string \<Rightarrow> observable list \<Rightarrow> distribution \<Rightarrow> world \<Rightarrow> world" where
  "add_constraint pm ps comb w =
     w\<lparr>PseudoMeasurement_instances :=
         (PseudoMeasurement_instances w)
           (pm \<mapsto> (case PseudoMeasurement_instances w pm of None \<Rightarrow> [] | Some cs \<Rightarrow> cs) @ [(comb, ps)])\<rparr>"

text \<open>Lines 385 to 412: the loop over the constraint blocks of one measurement.\<close>

fun constraints_loop ::
  "observable list \<Rightarrow> real list list \<Rightarrow> string \<Rightarrow> (constraint \<times> observable list) list \<Rightarrow>
   world \<Rightarrow> (error + unit) \<times> world" where
  "constraints_loop obs cov_sm pm [] w = (Inr (), w)"
| "constraints_loop obs cov_sm pm ((c, ps) # rest) w =
     then_w (constraint_comb obs cov_sm c ps, w) (\<lambda>comb w.
       constraints_loop obs cov_sm pm rest (add_constraint pm ps comb w))"

text \<open>Lines 382 to 412: the loop over the relevant measurements.\<close>

fun measurements_loop ::
  "'a fit_scheme \<Rightarrow> real list list \<Rightarrow> string list \<Rightarrow> world \<Rightarrow> (error + unit) \<times> world" where
  "measurements_loop self cov_sm [] w = (Inr (), w)"
| "measurements_loop self cov_sm (m # ms) w =
     (case map_of (Measurement_instances w) m of
        None \<Rightarrow> (Inl (KeyError m), w)
      | Some m_obj \<Rightarrow>
          then_w (constraints_loop (observables self) cov_sm (name self @ m) (constraints m_obj)
                    (PseudoMeasurement (name self @ m) w))
            (\<lambda>_ w. measurements_loop self cov_sm ms w))"

text \<open>
  \<^verbatim>\<open>get_random_nuisance_parameters\<close> (lines 96 to 100) inside \<^verbatim>\<open>random_nuisance_dict\<close>
  (lines 354 to 359), for the \<open>k\<close>-th sample of the registry.
\<close>

fun lookup_list :: "(string \<rightharpoonup> real) \<Rightarrow> string list \<Rightarrow> error + real list" where
  "lookup_list d [] = Inr []"
| "lookup_list d (p # ps) =
     (case d p of
        None \<Rightarrow> Inl (KeyError p)
      | Some v \<Rightarrow> and_then (lookup_list d ps) (\<lambda>vs. Inr (v # vs)))"

definition random_nuisance_dict ::
  "parameter_constraints \<Rightarrow> string list \<Rightarrow> (string \<rightharpoonup> real) \<Rightarrow> nat \<Rightarrow> error + (string \<rightharpoonup> real)" where
  "random_nuisance_dict registry nuisance par_central k =
     and_then (lookup_list (get_random_all registry k) nuisance) (\<lambda>arr.
     and_then (dict_comprehension arr 0 (enumerate 0 nuisance) Map.empty) (\<lambda>nuis_dict.
       Inr (par_central ++ nuis_dict)))"

text \<open>Line 360: \<open>n\<close> more samples, the next one being sample number \<^verbatim>\<open>draws\<close> of the world.\<close>

fun par_random ::
  "string list \<Rightarrow> (string \<rightharpoonup> real) \<Rightarrow> nat \<Rightarrow> world \<Rightarrow> (error + (string \<rightharpoonup> real) list) \<times> world" where
  "par_random nuisance par_central 0 w = (Inr [], w)"
| "par_random nuisance par_central (Suc n) w =
     then_w (random_nuisance_dict (par_obj w) nuisance par_central (draws w),
             w\<lparr>draws := Suc (draws w)\<rparr>)
       (\<lambda>par w. then_w (par_random nuisance par_central n w) (\<lambda>pars w. (Inr (par # pars), w)))"

text \<open>Lines 364 to 373: one row of predictions per observable, under the Standard Model.\<close>

definition pred_row ::
  "env \<Rightarrow> string list \<Rightarrow> (string \<rightharpoonup> real) list \<Rightarrow> observable \<Rightarrow> error + real list" where
  "pred_row E known pars observable =
     (if obs_name observable \<in> set known
      then Inr (map (\<lambda>par. prediction_par E (obs_name observable) par (WilsonCoefficients None)
                            (obs_args observable)) pars)
      else Inl (KeyError (obs_name observable)))"

text \<open>\<^verbatim>\<open>_get_covariance_sm\<close> (lines 352 to 374).\<close>

definition get_covariance_sm ::
  "env \<Rightarrow> 'a fit_scheme \<Rightarrow> nat \<Rightarrow> world \<Rightarrow> (error + real list list) \<times> world" where
  "get_covariance_sm E self N w =
     then_w (par_random (nuisance_parameters self) (get_central_all (par_obj w)) N w) (\<lambda>pars w.
     then_w (map_err (pred_row E (Observable_instances w) pars) (observables self), w) (\<lambda>pred_arr w.
       (Inr (np_cov E pred_arr), w)))"

text \<open>\<^verbatim>\<open>make_measurement\<close> (lines 376 to 412).\<close>

definition make_measurement ::
  "env \<Rightarrow> 'a fast_fit_scheme \<Rightarrow> nat \<Rightarrow> nat \<Rightarrow> world \<Rightarrow> (error + unit) \<times> world" where
  "make_measurement E self N Nexp w =
     then_w (get_covariance_sm E self N w) (\<lambda>cov_sm w.
       measurements_loop self cov_sm (get_measurements self w) w)"

section \<open>Evaluation: parameters, predictions, priors and likelihood\<close>

text \<open>\<^verbatim>\<open>d[k]\<close> on the structured dictionary, and \<^verbatim>\<open>dict.update\<close> on a dictionary object.\<close>

definition getitem_d :: "structured \<Rightarrow> string \<Rightarrow> error + (string \<rightharpoonup> real)" where
  "getitem_d d k = (case d k of None \<Rightarrow> Inl (KeyError k) | Some sub \<Rightarrow> Inr sub)"

definition dict_update :: "addr \<Rightarrow> (string \<rightharpoonup> real) \<Rightarrow> world \<Rightarrow> world" where
  "dict_update a d w = w\<lparr>heap := (heap w)(a := heap w a ++ d)\<rparr>"


definition FastFit_get_par_dict ::
  "'a fast_fit_scheme \<Rightarrow> real list \<Rightarrow> world \<Rightarrow> (error + addr) \<times> world" where
  "FastFit_get_par_dict self x w =
     then_w (FastFit_array_to_dict self x, w) (\<lambda>d w.
       case alloc (heap w (parameters_central self)) w of (par_dict, w) \<Rightarrow>
         then_w (getitem_d d ''fit_parameters'', w) (\<lambda>fp w.
           (Inr par_dict, dict_update par_dict fp w)))"

text \<open>
  The methods below are inherited by \<^verbatim>\<open>FastFit\<close> and call \<^verbatim>\<open>self.array_to_dict\<close>,
  \<^verbatim>\<open>self.get_par_dict\<close> and \<^verbatim>\<open>self.log_likelihood\<close>; the method that the class of \<^verbatim>\<open>self\<close>
  resolves to is their first argument. \<^verbatim>\<open>get_wc_obj\<close> is lines 204 to 211.
\<close>

definition get_wc_obj ::
  "('a fit_scheme \<Rightarrow> real list \<Rightarrow> error + structured) \<Rightarrow> 'a fit_scheme \<Rightarrow> real list \<Rightarrow>
   error + wilson_coefficients" where
  "get_wc_obj array_to_dict self x =
     (if fit_wc_names self = [] then Inr (WilsonCoefficients None)
      else and_then (array_to_dict self x) (\<lambda>d.
           and_then (getitem_d d ''fit_wc'') (\<lambda>wc.
             case fit_wc_function self of
               None \<Rightarrow> Inl (TypeError ''NoneType object is not callable'')
             | Some f \<Rightarrow> and_then (f wc) (\<lambda>v. Inr (WilsonCoefficients (Some (v, input_scale self)))))))"



text \<open>\<^verbatim>\<open>get_predictions\<close> (lines 230 to 244).\<close>

fun all_predictions ::
  "env \<Rightarrow> string list \<Rightarrow> (string \<rightharpoonup> real) \<Rightarrow> wilson_coefficients \<Rightarrow> observable list \<Rightarrow>
   (observable \<rightharpoonup> real) \<Rightarrow> error + (observable \<rightharpoonup> real)" where
  "all_predictions E known par wc_obj [] acc = Inr acc"
| "all_predictions E known par wc_obj (ob # rest) acc =
     (if obs_name ob \<in> set known
      then all_predictions E known par wc_obj rest
             (acc(ob \<mapsto> prediction_par E (obs_name ob) par wc_obj (obs_args ob)))
      else Inl (KeyError (obs_name ob)))"

definition get_predictions ::
  "('a fit_scheme \<Rightarrow> real list \<Rightarrow> world \<Rightarrow> (error + addr) \<times> world) \<Rightarrow>
   ('a fit_scheme \<Rightarrow> real list \<Rightarrow> error + structured) \<Rightarrow> env \<Rightarrow> 'a fit_scheme \<Rightarrow> real list \<Rightarrow>
   world \<Rightarrow> (error + (observable \<rightharpoonup> real)) \<times> world" where
  "get_predictions get_par_dict array_to_dict E self x w =
     then_w (get_par_dict self x w) (\<lambda>par_dict w.
     then_w (get_wc_obj array_to_dict self x, w) (\<lambda>wc_obj w.
       (all_predictions E (Observable_instances w) (heap w par_dict) wc_obj (observables self) Map.empty,
        w)))"



text \<open>
  \<^verbatim>\<open>FastFit.log_likelihood\<close> (lines 440 to 452). \<^verbatim>\<open>all_parameters\<close> of a pseudo-measurement
  is taken to be the observables of its constraints.
\<close>

fun FastFit_ll ::
  "env \<Rightarrow> 'a fit_scheme \<Rightarrow> (observable \<rightharpoonup> real) \<Rightarrow> world \<Rightarrow> string list \<Rightarrow> real \<Rightarrow> error + real" where
  "FastFit_ll E self predictions w [] ll = Inr ll"
| "FastFit_ll E self predictions w (m # ms) ll =
     (case PseudoMeasurement_instances w (name self @ m) of
        None \<Rightarrow> Inl (KeyError (name self @ m))
      | Some cs \<Rightarrow>
          FastFit_ll E self predictions w ms
            (ll + sum_list (logprobability_all E cs predictions
                    (set (concat (map snd cs)) - set (observables self)))))"

definition FastFit_log_likelihood ::
  "env \<Rightarrow> 'a fast_fit_scheme \<Rightarrow> real list \<Rightarrow> world \<Rightarrow> (error + real) \<times> world" where
  "FastFit_log_likelihood E self x w =
     then_w (get_predictions FastFit_get_par_dict FastFit_array_to_dict E self x w)
       (\<lambda>predictions w. (FastFit_ll E self predictions w (get_measurements self w) 0, w))"


section \<open>Notions used to state the properties\<close>

text \<open>
  The relevant measurements in the words of the specification: the names of the
  measurements whose constrained observables meet the observables of the fit, minus the
  exclude list when one was given, or met with the include list when one was given.
\<close>

definition relevant_measurements ::
  "observable list \<Rightarrow> string list option \<Rightarrow> string list option \<Rightarrow> world \<Rightarrow> string set" where
  "relevant_measurements obs excl incl w =
     (let relevant = {m. \<exists>m_obj. (m, m_obj) \<in> set (Measurement_instances w)
                          \<and> set (all_parameters m_obj) \<inter> set obs \<noteq> {}}
      in case excl of
           Some ex \<Rightarrow> relevant - set ex
         | None \<Rightarrow> (case incl of Some inc \<Rightarrow> relevant \<inter> set inc | None \<Rightarrow> relevant))"

text \<open>
  The difference between the two extremes of the declared support of a constraint along
  the axis of its \<open>i\<close>-th observable, for a support of shape \<open>(2, n)\<close>.
\<close>

definition support_extent :: "constraint \<Rightarrow> nat \<Rightarrow> real" where
  "support_extent c i = (case support c of Mat [lower, upper] \<Rightarrow> upper ! i - lower ! i | _ \<Rightarrow> 0)"


fun first_error ::
  "observable list \<Rightarrow> real list list \<Rightarrow> (constraint \<times> observable list) list \<Rightarrow> error + unit" where
  "first_error obs cov_sm [] = Inr ()"
| "first_error obs cov_sm ((c, ps) # rest) =
     and_then (constraint_comb obs cov_sm c ps) (\<lambda>_. first_error obs cov_sm rest)"

text \<open>
  The second world differs from the first only by dictionary objects allocated since:
  every object that existed keeps its contents, and the registries and the sample
  counter are the same.
\<close>

definition heap_extends :: "world \<Rightarrow> world \<Rightarrow> bool" where
  "heap_extends w w' =
     (next_addr w \<le> next_addr w' \<and> (\<forall>a<next_addr w. heap w' a = heap w a)
      \<and> par_obj w' = par_obj w \<and> Observable_instances w' = Observable_instances w
      \<and> Measurement_instances w' = Measurement_instances w
      \<and> PseudoMeasurement_instances w' = PseudoMeasurement_instances w
      \<and> draws w' = draws w)"


section \<open>An example: registries, measurements and fits\<close>

text \<open>
  The sample covariance of rows of at least two samples each, which is what \<^verbatim>\<open>np.cov\<close>
  returns for two or more such rows. It stands for \<^verbatim>\<open>np.cov\<close> in the example.
\<close>

definition mean :: "real list \<Rightarrow> real" where
  "mean xs = sum_list xs / real (length xs)"

definition sample_cov :: "real list list \<Rightarrow> real list list" where
  "sample_cov rows =
     map (\<lambda>r. map (\<lambda>s. sum_list (map2 (\<lambda>a b. (a - mean r) * (b - mean s)) r s) / (real (length r) - 1)) rows) rows"

text \<open>
  A parameter registry with three parameters; the samples of \<^verbatim>\<open>b\<close> differ from one draw
  to the next, \<^verbatim>\<open>a\<close> and \<^verbatim>\<open>c\<close> are always at their central values.
\<close>

definition ex_registry :: parameter_constraints where
  "ex_registry =
     \<lparr>parameters = [''a'', ''b'', ''c''],
      get_central_all = [''a'' \<mapsto> 1, ''b'' \<mapsto> 2, ''c'' \<mapsto> 3],
      get_random_all = (\<lambda>k. [''a'' \<mapsto> 1, ''b'' \<mapsto> 2 + real k, ''c'' \<mapsto> 3]),
      get_logprobability_all = (\<lambda>d excl. [])\<rparr>"


text \<open>
  The prediction of observable \<^verbatim>\<open>o1\<close> is the value of parameter \<^verbatim>\<open>b\<close>; every other
  prediction is zero.
\<close>

definition ex_env :: env where
  "ex_env =
     \<lparr>str_tuple = (\<lambda>n args. n),
      str_set = (\<lambda>S. ''{}''),
      prediction_par = (\<lambda>n par wc args. if n = ''o1'' then (case par ''b'' of Some v \<Rightarrow> v | None \<Rightarrow> 0) else 0),
      np_cov = sample_cov,
      logprobability_all = (\<lambda>cs predictions excl. [])\<rparr>"

text \<open>
  A constraint over one observable, and one over two observables whose support has
  extent 1 along the first and 10 along the second.
\<close>

definition ex_c1 :: constraint where
  "ex_c1 = \<lparr>central_value = Scalar 1, support = Vec [0, 2]\<rparr>"

definition ex_c12 :: constraint where
  "ex_c12 = \<lparr>central_value = Vec [1 / 2, 5], support = Mat [[0, 0], [1, 10]]\<rparr>"

text \<open>
  The world before a fit is constructed: four observables, of which \<^verbatim>\<open>o4\<close> is measured
  by nothing, and three measurements.
\<close>

definition ex_world :: world where
  "ex_world =
     \<lparr>heap = (\<lambda>a. Map.empty), next_addr = 0, par_obj = ex_registry,
      Observable_instances = [''o1'', ''o2'', ''o3'', ''o4''],
      Measurement_instances =
        [(''m1'', \<lparr>constraints = [(ex_c1, [Obs ''o1'']), (ex_c1, [Obs ''o2''])],
                   all_parameters = [Obs ''o1'', Obs ''o2'']\<rparr>),
         (''m2'', \<lparr>constraints = [(ex_c12, [Obs ''o1'', Obs ''o2''])],
                   all_parameters = [Obs ''o1'', Obs ''o2'']\<rparr>),
         (''m3'', \<lparr>constraints = [(ex_c1, [Obs ''o1'']), (ex_c1, [Obs ''o3''])],
                   all_parameters = [Obs ''o1'', Obs ''o3'']\<rparr>)],
      PseudoMeasurement_instances = Map.empty,
      draws = 0\<rparr>"

text \<open>
  The world after a fit was constructed in it, and the fits that the three constructors
  return for the fit parameter \<^verbatim>\<open>a\<close>, the observables \<^verbatim>\<open>o1\<close> and \<^verbatim>\<open>o2\<close>, and the given
  nuisance parameters and include list.
\<close>

definition ex_world1 :: world where
  "ex_world1 =
     ex_world\<lparr>heap := (heap ex_world)(0 := [''a'' \<mapsto> 1, ''b'' \<mapsto> 2, ''c'' \<mapsto> 3]), next_addr := 1\<rparr>"

definition ex_fit :: "string list \<Rightarrow> string list option \<Rightarrow> fit" where
  "ex_fit nuisance incl =
     \<lparr>name = ''f'', parameters_central = 0, fit_parameters = [''a''],
      nuisance_parameters = nuisance, exclude_measurements = None,
      include_measurements = incl, fit_wc_names = [], fit_wc_function = None,
      fit_wc_priors = None, observables = [Obs ''o1'', Obs ''o2''], input_scale = 160\<rparr>"

definition ex_bayesian :: "string list \<Rightarrow> string list option \<Rightarrow> bayesian_fit" where
  "ex_bayesian nuisance incl =
     fit.extend (ex_fit nuisance incl) (bayesian_fit.fields (1 + length nuisance))"

definition ex_fast :: "string list \<Rightarrow> string list option \<Rightarrow> fast_fit" where
  "ex_fast nuisance incl = bayesian_fit.extend (ex_bayesian nuisance incl) (fast_fit.fields None)"

section \<open>Basic facts about the constructors and the example\<close>

lemma and_then_Inr_iff: "and_then m f = Inr v \<longleftrightarrow> (\<exists>u. m = Inr u \<and> f u = Inr v)"
  by (cases m) auto

lemma Fit_init_fields:
  assumes "Fit_init E nm fp np obs wcn wcf wcp sc excl incl w = Inr (self, w1)"
  shows "fit_parameters self = fp" "nuisance_parameters self = np" "fit_wc_names self = wcn"
    "observables self = obs" "exclude_measurements self = excl" "include_measurements self = incl"
    "name self = nm" "excl = None \<or> incl = None"
    "parameters_central self = next_addr w"
    "w1 = w\<lparr>heap := (heap w)(next_addr w := get_central_all (par_obj w)), next_addr := Suc (next_addr w)\<rparr>"
  using assms
  by (auto simp: Fit_init_def and_then_Inr_iff alloc_def split: if_splits)

lemma BayesianFit_init_fields:
  assumes "BayesianFit_init E nm fp np obs wcn wcf wcp sc excl incl w = Inr (self, w1)"
  shows "fit_parameters self = fp" "nuisance_parameters self = np" "fit_wc_names self = wcn"
    "observables self = obs" "exclude_measurements self = excl" "include_measurements self = incl"
    "name self = nm" "excl = None \<or> incl = None"
    "parameters_central self = next_addr w"
    "dimension self = length fp + length np + length wcn"
    "w1 = w\<lparr>heap := (heap w)(next_addr w := get_central_all (par_obj w)), next_addr := Suc (next_addr w)\<rparr>"
proof -
  obtain base where base: "Fit_init E nm fp np obs wcn wcf wcp sc excl incl w = Inr (base, w1)"
    and self: "self = fit.extend base (bayesian_fit.fields
                 (length (fit_parameters base) + length (nuisance_parameters base)
                  + length (fit_wc_names base)))"
    using assms by (auto simp: BayesianFit_init_def and_then_Inr_iff)
  note f = Fit_init_fields [OF base]
  show "fit_parameters self = fp" "nuisance_parameters self = np" "fit_wc_names self = wcn"
    "observables self = obs" "exclude_measurements self = excl" "include_measurements self = incl"
    "name self = nm" "parameters_central self = next_addr w"
    "dimension self = length fp + length np + length wcn"
    using f by (simp_all add: self fit.defs bayesian_fit.defs)
  show "excl = None \<or> incl = None" by (rule f)
  show "w1 = w\<lparr>heap := (heap w)(next_addr w := get_central_all (par_obj w)), next_addr := Suc (next_addr w)\<rparr>"
    by (rule f)
qed

lemma FastFit_init_fields:
  assumes "FastFit_init E nm fp np obs wcn wcf wcp sc excl incl w = Inr (self, w1)"
  shows "fit_parameters self = fp" "nuisance_parameters self = np" "fit_wc_names self = wcn"
    "observables self = obs" "exclude_measurements self = excl" "include_measurements self = incl"
    "name self = nm" "excl = None \<or> incl = None"
    "parameters_central self = next_addr w"
    "dimension self = length fp + length np + length wcn"
    "w1 = w\<lparr>heap := (heap w)(next_addr w := get_central_all (par_obj w)), next_addr := Suc (next_addr w)\<rparr>"
proof -
  obtain base where base: "BayesianFit_init E nm fp np obs wcn wcf wcp sc excl incl w = Inr (base, w1)"
    and self: "self = bayesian_fit.extend base (fast_fit.fields None)"
    using assms by (auto simp: FastFit_init_def and_then_Inr_iff)
  note f = BayesianFit_init_fields [OF base]
  show "fit_parameters self = fp" "nuisance_parameters self = np" "fit_wc_names self = wcn"
    "observables self = obs" "exclude_measurements self = excl" "include_measurements self = incl"
    "name self = nm" "parameters_central self = next_addr w"
    "dimension self = length fp + length np + length wcn"
    using f by (simp_all add: self fit.defs bayesian_fit.defs fast_fit.defs)
  show "excl = None \<or> incl = None" by (rule f)
  show "w1 = w\<lparr>heap := (heap w)(next_addr w := get_central_all (par_obj w)), next_addr := Suc (next_addr w)\<rparr>"
    by (rule f)
qed

lemmas ex_defs = ex_world_def ex_world1_def ex_registry_def ex_env_def ex_fit_def ex_bayesian_def
  ex_fast_def ex_c1_def ex_c12_def fit.defs bayesian_fit.defs fast_fit.defs

lemmas init_defs = FastFit_init_def BayesianFit_init_def Fit_init_def check_constrained_def
  missing_obs_def obs_measured_def check_wc_function_def alloc_def

lemmas mm_defs = make_measurement_def get_covariance_sm_def numeral_2_eq_2 random_nuisance_dict_def
  pred_row_def sample_cov_def mean_def get_measurements_def PseudoMeasurement_def add_constraint_def
  constraint_comb_def submatrix_def getitems_def constraint_th_def load_global_def module_globals_def
  support_range_def np_diag_def

lemma ex_Fit_init:
  "Fit_init ex_env ''f'' [''a''] [''b''] [Obs ''o1'', Obs ''o2''] [] None None 160 None incl ex_world
     = Inr (ex_fit [''b''] incl, ex_world1)"
  by (simp add: init_defs ex_defs)

lemma ex_BayesianFit_init:
  "BayesianFit_init ex_env ''f'' [''a''] [''b''] [Obs ''o1'', Obs ''o2''] [] None None 160 None incl ex_world
     = Inr (ex_bayesian [''b''] incl, ex_world1)"
  by (simp add: init_defs ex_defs)

lemma ex_FastFit_init:
  "FastFit_init ex_env ''f'' [''a''] [''b''] [Obs ''o1'', Obs ''o2''] [] None None 160 None incl ex_world
     = Inr (ex_fast [''b''] incl, ex_world1)"
  by (simp add: init_defs ex_defs)

lemma ex_FastFit_init0:
  "FastFit_init ex_env ''f'' [''a''] [] [Obs ''o1'', Obs ''o2''] [] None None 160 None incl ex_world
     = Inr (ex_fast [] incl, ex_world1)"
  by (simp add: init_defs ex_defs)


section \<open>The vector and the dictionary\<close>

lemma dict_comprehension_enumerate:
  "i + off + length names \<le> length x \<Longrightarrow>
   dict_comprehension x off (enumerate i names) acc
     = Inr (acc ++ map_of (rev (zip names (drop (i + off) x))))"
proof (induction names arbitrary: i acc)
  case Nil
  then show ?case by simp
next
  case (Cons p ps)
  have lt: "i + off < length x" using Cons.prems by simp
  have drop: "drop (i + off) x = x ! (i + off) # drop (Suc i + off) x"
    using lt by (simp add: Cons_nth_drop_Suc)
  have "dict_comprehension x off (enumerate i (p # ps)) acc
          = dict_comprehension x off (enumerate (Suc i) ps) (acc(p \<mapsto> x ! (i + off)))"
    using lt by simp
  also have "\<dots> = Inr (acc(p \<mapsto> x ! (i + off)) ++ map_of (rev (zip ps (drop (Suc i + off) x))))"
    using Cons.prems by (intro Cons.IH) simp
  also have "acc(p \<mapsto> x ! (i + off)) ++ map_of (rev (zip ps (drop (Suc i + off) x)))
          = acc ++ map_of (rev (zip (p # ps) (drop (i + off) x)))"
    by (simp add: drop fun_eq_iff map_add_def split: option.splits)
  finally show ?case .
qed



lemma BayesianFit_array_to_dict_partition:
  assumes "length (fit_parameters self) + length (nuisance_parameters self)
             + length (fit_wc_names self) \<le> length x"
  shows "BayesianFit_array_to_dict self x
           = Inr [''fit_parameters'' \<mapsto> map_of (rev (zip (fit_parameters self) x)),
                  ''nuisance_parameters'' \<mapsto>
                     map_of (rev (zip (nuisance_parameters self) (drop (length (fit_parameters self)) x))),
                  ''fit_wc'' \<mapsto>
                     map_of (rev (zip (fit_wc_names self)
                       (drop (length (fit_parameters self) + length (nuisance_parameters self)) x)))]"
  using assms
  by (simp add: BayesianFit_array_to_dict_def Let_def dict_comprehension_enumerate [where i = 0, simplified])


lemma FastFit_array_to_dict_partition:
  assumes "length (fit_parameters self) + length (fit_wc_names self) \<le> length x"
  shows "FastFit_array_to_dict self x
           = Inr [''fit_parameters'' \<mapsto> map_of (rev (zip (fit_parameters self) x)),
                  ''fit_wc'' \<mapsto> map_of (rev (zip (fit_wc_names self) (drop (length (fit_parameters self)) x)))]"
  using assms
  by (simp add: FastFit_array_to_dict_def dict_comprehension_enumerate [where i = 0, simplified])


lemma map_of_rev_zip_values:
  assumes "distinct names" and "length names \<le> length vals"
  shows "map (\<lambda>p. the (map_of (rev (zip names vals)) p)) names = take (length names) vals"
proof (rule nth_equalityI)
  show "length (map (\<lambda>p. the (map_of (rev (zip names vals)) p)) names) = length (take (length names) vals)"
    using assms(2) by simp
next
  fix i
  assume "i < length (map (\<lambda>p. the (map_of (rev (zip names vals)) p)) names)"
  then have i: "i < length names" by simp
  have "map fst (zip names vals) = names"
    using assms(2) by (simp add: map_fst_zip_take)
  moreover have "map fst (rev (zip names vals)) = rev (map fst (zip names vals))"
    by (rule rev_map [symmetric])
  ultimately have d: "distinct (map fst (rev (zip names vals)))"
    using assms(1) by simp
  have "(names ! i, vals ! i) \<in> set (zip names vals)"
    using i assms(2) by (auto simp: set_zip)
  then have "(names ! i, vals ! i) \<in> set (rev (zip names vals))" by simp
  then have "map_of (rev (zip names vals)) (names ! i) = Some (vals ! i)"
    using d by (rule map_of_is_SomeI [rotated])
  then show "map (\<lambda>p. the (map_of (rev (zip names vals)) p)) names ! i = take (length names) vals ! i"
    using i by simp
qed

lemma map_of_rev_zip_map:
  "map_of (rev (zip xs (map f xs))) = (\<lambda>x. if x \<in> set xs then Some (f x) else None)"
proof -
  have "zip (rev xs) (rev (map f xs)) = rev (zip xs (map f xs))"
    by (rule zip_rev) simp
  moreover have "rev (map f xs) = map f (rev xs)"
    by (rule rev_map)
  ultimately have "rev (zip xs (map f xs)) = zip (rev xs) (map f (rev xs))"
    by simp
  then show ?thesis
    by (simp add: map_of_zip_map)
qed

lemma dom_map_of_rev_zip:
  assumes "length names \<le> length vals"
  shows "dom (map_of (rev (zip names vals))) = set names"
proof -
  have "dom (map_of (rev (zip names vals))) = set (map fst (zip names vals))"
    by (simp add: dom_map_of_conv_image_fst)
  also have "map fst (zip names vals) = names"
    using assms by (simp add: map_fst_zip_take)
  finally show ?thesis .
qed

lemma map_of_rev_zip_dom:
  assumes "dom F = set names"
  shows "map_of (rev (zip names (map (\<lambda>p. the (F p)) names))) = F"
proof (rule ext)
  fix p
  show "map_of (rev (zip names (map (\<lambda>p. the (F p)) names))) p = F p"
  proof (cases "F p")
    case None
    then have "p \<notin> set names" using assms by (auto simp: domIff)
    then show ?thesis using None by (simp add: map_of_rev_zip_map)
  next
    case (Some v)
    then have "p \<in> set names" using assms by (auto simp: domIff)
    then show ?thesis using Some by (simp add: map_of_rev_zip_map)
  qed
qed

lemma list_comprehension_values:
  assumes "d k = Some sub" and "set names \<subseteq> dom sub"
  shows "list_comprehension d k names = Inr (map (\<lambda>p. the (sub p)) names)"
  using assms(2)
proof (induction names)
  case Nil
  then show ?case by simp
next
  case (Cons p ps)
  then obtain v where v: "sub p = Some v" by auto
  have "list_comprehension d k ps = Inr (map (\<lambda>p. the (sub p)) ps)"
    using Cons by simp
  then show ?case by (simp add: assms(1) v)
qed

lemma slice_assign_exact:
  assumes "lo \<le> hi" and "hi \<le> length arr" and "length vals = hi - lo"
  shows "slice_assign arr lo hi vals = Inr (take lo arr @ vals @ drop hi arr)"
  using assms by (simp add: slice_assign_def Let_def min_def max_def)

lemma BayesianFit_dict_to_array_values:
  assumes "list_comprehension d ''fit_parameters'' (fit_parameters self) = Inr v1"
    and "list_comprehension d ''nuisance_parameters'' (nuisance_parameters self) = Inr v2"
    and "list_comprehension d ''fit_wc'' (fit_wc_names self) = Inr v3"
    and "length v1 = length (fit_parameters self)"
    and "length v2 = length (nuisance_parameters self)"
    and "length v3 = length (fit_wc_names self)"
  shows "BayesianFit_dict_to_array self d = Inr (v1 @ v2 @ v3)"
  by (simp add: BayesianFit_dict_to_array_def Let_def slice_assign_def assms min_def max_def)

text \<open>
  For a \<^verbatim>\<open>BayesianFit\<close> whose three lists of names have no repeated name, and a vector of
  the length of the three lists together, converting to the dictionary and back
  returns the vector.
\<close>

lemma BayesianFit_roundtrip_array:
  assumes "distinct (fit_parameters self)" and "distinct (nuisance_parameters self)"
    and "distinct (fit_wc_names self)"
    and "length x = length (fit_parameters self) + length (nuisance_parameters self)
                      + length (fit_wc_names self)"
  shows "and_then (BayesianFit_array_to_dict self x) (BayesianFit_dict_to_array self) = Inr x"
proof -
  let ?fp = "fit_parameters self" and ?np = "nuisance_parameters self" and ?wc = "fit_wc_names self"
  let ?n1 = "length ?fp" and ?n2 = "length ?np" and ?n3 = "length ?wc"
  let ?F = "map_of (rev (zip ?fp x))"
  let ?N = "map_of (rev (zip ?np (drop ?n1 x)))"
  let ?W = "map_of (rev (zip ?wc (drop (?n1 + ?n2) x)))"
  let ?d = "[''fit_parameters'' \<mapsto> ?F, ''nuisance_parameters'' \<mapsto> ?N, ''fit_wc'' \<mapsto> ?W]"
  have to_dict: "BayesianFit_array_to_dict self x = Inr ?d"
    using assms(4) by (simp add: BayesianFit_array_to_dict_partition)
  have domF: "set ?fp \<subseteq> dom ?F" and domN: "set ?np \<subseteq> dom ?N" and domW: "set ?wc \<subseteq> dom ?W"
    using assms(4) by (simp_all add: dom_map_of_rev_zip)
  have v1: "list_comprehension ?d ''fit_parameters'' ?fp = Inr (take ?n1 x)"
    using list_comprehension_values [of ?d "''fit_parameters''" ?F ?fp] domF
      map_of_rev_zip_values [OF assms(1), of x] assms(4) by simp
  have v2: "list_comprehension ?d ''nuisance_parameters'' ?np = Inr (take ?n2 (drop ?n1 x))"
    using list_comprehension_values [of ?d "''nuisance_parameters''" ?N ?np] domN
      map_of_rev_zip_values [OF assms(2), of "drop ?n1 x"] assms(4) by simp
  have v3: "list_comprehension ?d ''fit_wc'' ?wc = Inr (drop (?n1 + ?n2) x)"
    using list_comprehension_values [of ?d "''fit_wc''" ?W ?wc] domW
      map_of_rev_zip_values [OF assms(3), of "drop (?n1 + ?n2) x"] assms(4) by simp
  have x: "take ?n1 x @ take ?n2 (drop ?n1 x) @ drop (?n1 + ?n2) x = x"
    by (metis append_take_drop_id drop_drop add.commute)
  have "BayesianFit_dict_to_array self ?d
          = Inr (take ?n1 x @ take ?n2 (drop ?n1 x) @ drop (?n1 + ?n2) x)"
    using v1 v2 v3 by (rule BayesianFit_dict_to_array_values) (simp_all add: assms(4))
  then have "BayesianFit_dict_to_array self ?d = Inr x"
    by (simp only: x)
  then show ?thesis by (simp add: to_dict del: fun_upd_apply)
qed

text \<open>
  Conversely, for a dictionary with exactly the three sub-dictionaries, each with
  exactly the names of its list as keys, converting to the vector and back returns the
  dictionary.
\<close>

lemma BayesianFit_roundtrip_dict:
  assumes "d = [''fit_parameters'' \<mapsto> F, ''nuisance_parameters'' \<mapsto> N, ''fit_wc'' \<mapsto> W]"
    and "dom F = set (fit_parameters self)" and "dom N = set (nuisance_parameters self)"
    and "dom W = set (fit_wc_names self)"
  shows "and_then (BayesianFit_dict_to_array self d) (BayesianFit_array_to_dict self) = Inr d"
proof -
  let ?fp = "fit_parameters self" and ?np = "nuisance_parameters self" and ?wc = "fit_wc_names self"
  let ?n1 = "length ?fp" and ?n2 = "length ?np" and ?n3 = "length ?wc"
  let ?v1 = "map (\<lambda>p. the (F p)) ?fp" and ?v2 = "map (\<lambda>p. the (N p)) ?np"
    and ?v3 = "map (\<lambda>p. the (W p)) ?wc"
  let ?x = "?v1 @ ?v2 @ ?v3"
  have v1: "list_comprehension d ''fit_parameters'' ?fp = Inr ?v1"
    by (rule list_comprehension_values) (simp_all add: assms)
  have v2: "list_comprehension d ''nuisance_parameters'' ?np = Inr ?v2"
    by (rule list_comprehension_values) (simp_all add: assms)
  have v3: "list_comprehension d ''fit_wc'' ?wc = Inr ?v3"
    by (rule list_comprehension_values) (simp_all add: assms)
  have to_array: "BayesianFit_dict_to_array self d = Inr ?x"
    using v1 v2 v3 by (rule BayesianFit_dict_to_array_values) simp_all
  have from_array: "BayesianFit_array_to_dict self ?x
           = Inr [''fit_parameters'' \<mapsto> map_of (rev (zip ?fp ?x)),
                  ''nuisance_parameters'' \<mapsto> map_of (rev (zip ?np (drop ?n1 ?x))),
                  ''fit_wc'' \<mapsto> map_of (rev (zip ?wc (drop (?n1 + ?n2) ?x)))]"
    by (rule BayesianFit_array_to_dict_partition) simp
  have z1: "zip ?fp ?x = zip ?fp ?v1" by (simp add: zip_append2)
  have z2: "zip ?np (drop ?n1 ?x) = zip ?np ?v2" by (simp add: zip_append2)
  have z3: "drop (?n1 + ?n2) ?x = ?v3" by simp
  have F: "map_of (rev (zip ?fp ?v1)) = F"
    using assms(2) by (rule map_of_rev_zip_dom)
  have N: "map_of (rev (zip ?np ?v2)) = N"
    using assms(3) by (rule map_of_rev_zip_dom)
  have W: "map_of (rev (zip ?wc ?v3)) = W"
    using assms(4) by (rule map_of_rev_zip_dom)
  have "BayesianFit_array_to_dict self ?x = Inr d"
    unfolding from_array z1 z2 z3 F N W by (simp add: assms(1))
  then show ?thesis by (simp add: to_array)
qed

text \<open>
  Claim C1. The claim: for every \<^verbatim>\<open>FastFit\<close>, \<^verbatim>\<open>dict_to_array\<close> is the inverse of
  \<^verbatim>\<open>array_to_dict\<close>. The code: \<^verbatim>\<open>FastFit.dict_to_array\<close> raises \<^verbatim>\<open>NameError\<close> for the name
  \<^verbatim>\<open>n_nui_p\<close> on every fit and every dictionary, so converting a vector to a dictionary
  and back never returns the vector.
\<close>

theorem FastFit_dict_to_array_raises:
  "FastFit_dict_to_array self d = Inl (NameError ''n_nui_p'')
   \<and> and_then (FastFit_array_to_dict self x) (FastFit_dict_to_array self) \<noteq> Inr x"
proof -
  have *: "FastFit_dict_to_array self d' = Inl (NameError ''n_nui_p'')" for d'
    by (simp add: FastFit_dict_to_array_def load_global_def module_globals_def)
  show ?thesis
    by (cases "FastFit_array_to_dict self x") (simp_all add: *)
qed

text \<open>
  Claim C4, amended. The dimension of a constructed \<^verbatim>\<open>BayesianFit\<close> is the sum of the
  numbers of fit parameters, nuisance parameters and coupling names. A constructed
  \<^verbatim>\<open>FastFit\<close> reports the same sum, nuisance parameters included, while its
  \<^verbatim>\<open>array_to_dict\<close> reads a vector as the fit parameters followed at once by the coupling
  names: the positions from \<open>0\<close> and from the number of fit parameters, no nuisance slot.
\<close>

theorem dimension_and_FastFit_partition:
  "(BayesianFit_init E nm fp np obs wcn wcf wcp sc excl incl w = Inr (bself, w1)
      \<longrightarrow> dimension bself = length fp + length np + length wcn)
   \<and> (FastFit_init E nm fp np obs wcn wcf wcp sc excl incl w = Inr (fself, w2)
      \<longrightarrow> dimension fself = length fp + length np + length wcn
        \<and> (\<forall>x. length fp + length wcn \<le> length x \<longrightarrow>
              FastFit_array_to_dict fself x
                = Inr [''fit_parameters'' \<mapsto> map_of (rev (zip fp x)),
                       ''fit_wc'' \<mapsto> map_of (rev (zip wcn (drop (length fp) x)))]))"
proof (intro conjI impI allI)
  assume "BayesianFit_init E nm fp np obs wcn wcf wcp sc excl incl w = Inr (bself, w1)"
  then show "dimension bself = length fp + length np + length wcn"
    by (rule BayesianFit_init_fields)
next
  assume a: "FastFit_init E nm fp np obs wcn wcf wcp sc excl incl w = Inr (fself, w2)"
  then show "dimension fself = length fp + length np + length wcn"
    by (rule FastFit_init_fields)
  fix x :: "real list"
  assume "length fp + length wcn \<le> length x"
  then show "FastFit_array_to_dict fself x
                = Inr [''fit_parameters'' \<mapsto> map_of (rev (zip fp x)),
                       ''fit_wc'' \<mapsto> map_of (rev (zip wcn (drop (length fp) x)))]"
    using FastFit_array_to_dict_partition [of fself x] FastFit_init_fields(1,3) [OF a] by simp
qed

theorem dimension_and_FastFit_partition_witness:
  "BayesianFit_init ex_env ''f'' [''a''] [''b''] [Obs ''o1'', Obs ''o2''] [] None None 160 None None ex_world
     = Inr (ex_bayesian [''b''] None, ex_world1)
   \<and> dimension (ex_bayesian [''b''] None) = 2
   \<and> FastFit_init ex_env ''f'' [''a''] [''b''] [Obs ''o1'', Obs ''o2''] [] None None 160 None None ex_world
     = Inr (ex_fast [''b''] None, ex_world1)
   \<and> dimension (ex_fast [''b''] None) = 2
   \<and> FastFit_array_to_dict (ex_fast [''b''] None) [5, 6]
       = Inr [''fit_parameters'' \<mapsto> [''a'' \<mapsto> 5], ''fit_wc'' \<mapsto> Map.empty]"
  using dimension_and_FastFit_partition [of ex_env "''f''" "[''a'']" "[''b'']" "[Obs ''o1'', Obs ''o2'']" "[]"
      None None 160 None None ex_world "ex_bayesian [''b''] None" ex_world1 "ex_fast [''b''] None" ex_world1]
    ex_BayesianFit_init [of None] ex_FastFit_init [of None]
  by simp

text \<open>
  The claim as stated fails: a \<^verbatim>\<open>FastFit\<close> with one fit parameter and one nuisance
  parameter reports dimension 2, its vector partition has length 1, and the second
  entry of a vector of the reported dimension is never read.
\<close>

theorem FastFit_dimension_counterexample:
  "FastFit_init ex_env ''f'' [''a''] [''b''] [Obs ''o1'', Obs ''o2''] [] None None 160 None None ex_world
     = Inr (ex_fast [''b''] None, ex_world1)
   \<and> dimension (ex_fast [''b''] None)
       \<noteq> length (fit_parameters (ex_fast [''b''] None)) + length (fit_wc_names (ex_fast [''b''] None))
   \<and> FastFit_array_to_dict (ex_fast [''b''] None) [5, 6] = FastFit_array_to_dict (ex_fast [''b''] None) [5, 7]"
  by (simp add: ex_FastFit_init) (simp add: ex_defs FastFit_array_to_dict_def)

section \<open>The relevant measurements\<close>

lemma set_all_measurements:
  "set (map fst (filter (\<lambda>(m_name, m_obj). \<not> (set (all_parameters m_obj) \<inter> set obs = {})) instances))
     = {m. \<exists>m_obj. (m, m_obj) \<in> set instances \<and> set (all_parameters m_obj) \<inter> set obs \<noteq> {}}"
  by force

lemma get_measurements_set:
  "exclude_measurements self = None \<or> include_measurements self = None \<Longrightarrow>
   set (get_measurements self w)
     = relevant_measurements (observables self) (exclude_measurements self) (include_measurements self) w"
  unfolding get_measurements_def relevant_measurements_def Let_def set_all_measurements [symmetric]
  by (auto split: option.splits)



text \<open>
  Claim C5. For every constructed fit, whatever the registry holds when the property
  is read, \<^verbatim>\<open>get_measurements\<close> returns exactly the names of the measurements whose
  \<^verbatim>\<open>all_parameters\<close> meet the fit's observables, minus the exclude list when one was
  given, or met with the include list when one was given.
\<close>

theorem get_measurements_relevant:
  "(Fit_init E nm fp np obs wcn wcf wcp sc excl incl w0 = Inr (self, w1)
      \<longrightarrow> set (get_measurements self w) = relevant_measurements obs excl incl w)
   \<and> (BayesianFit_init E nm fp np obs wcn wcf wcp sc excl incl w0 = Inr (bself, w2)
      \<longrightarrow> set (get_measurements bself w) = relevant_measurements obs excl incl w)
   \<and> (FastFit_init E nm fp np obs wcn wcf wcp sc excl incl w0 = Inr (fself, w3)
      \<longrightarrow> set (get_measurements fself w) = relevant_measurements obs excl incl w)"
proof (intro conjI impI)
  assume a: "Fit_init E nm fp np obs wcn wcf wcp sc excl incl w0 = Inr (self, w1)"
  show "set (get_measurements self w) = relevant_measurements obs excl incl w"
    using get_measurements_set [of self w] Fit_init_fields(4,5,6,8) [OF a] by simp
next
  assume a: "BayesianFit_init E nm fp np obs wcn wcf wcp sc excl incl w0 = Inr (bself, w2)"
  show "set (get_measurements bself w) = relevant_measurements obs excl incl w"
    using get_measurements_set [of bself w] BayesianFit_init_fields(4,5,6,8) [OF a] by simp
next
  assume a: "FastFit_init E nm fp np obs wcn wcf wcp sc excl incl w0 = Inr (fself, w3)"
  show "set (get_measurements fself w) = relevant_measurements obs excl incl w"
    using get_measurements_set [of fself w] FastFit_init_fields(4,5,6,8) [OF a] by simp
qed

theorem get_measurements_relevant_witness:
  "Fit_init ex_env ''f'' [''a''] [''b''] [Obs ''o1'', Obs ''o2''] [] None None 160 None (Some [''m3'', ''m9'']) ex_world
     = Inr (ex_fit [''b''] (Some [''m3'', ''m9'']), ex_world1)
   \<and> BayesianFit_init ex_env ''f'' [''a''] [''b''] [Obs ''o1'', Obs ''o2''] [] None None 160 None (Some [''m3'', ''m9'']) ex_world
     = Inr (ex_bayesian [''b''] (Some [''m3'', ''m9'']), ex_world1)
   \<and> FastFit_init ex_env ''f'' [''a''] [''b''] [Obs ''o1'', Obs ''o2''] [] None None 160 None (Some [''m3'', ''m9'']) ex_world
     = Inr (ex_fast [''b''] (Some [''m3'', ''m9'']), ex_world1)
   \<and> get_measurements (ex_fit [''b''] (Some [''m3'', ''m9''])) ex_world1 = [''m3'']
   \<and> set (get_measurements (ex_fit [''b''] (Some [''m3'', ''m9''])) ex_world1)
       = relevant_measurements [Obs ''o1'', Obs ''o2''] None (Some [''m3'', ''m9'']) ex_world1
   \<and> set (get_measurements (ex_bayesian [''b''] (Some [''m3'', ''m9''])) ex_world1)
       = relevant_measurements [Obs ''o1'', Obs ''o2''] None (Some [''m3'', ''m9'']) ex_world1
   \<and> set (get_measurements (ex_fast [''b''] (Some [''m3'', ''m9''])) ex_world1)
       = relevant_measurements [Obs ''o1'', Obs ''o2''] None (Some [''m3'', ''m9'']) ex_world1"
proof -
  have "get_measurements (ex_fit [''b''] (Some [''m3'', ''m9''])) ex_world1 = [''m3'']"
    by (simp add: get_measurements_def ex_defs)
  then show ?thesis
    using get_measurements_relevant [of ex_env "''f''" "[''a'']" "[''b'']" "[Obs ''o1'', Obs ''o2'']" "[]"
        None None 160 None "Some [''m3'', ''m9'']" ex_world "ex_fit [''b''] (Some [''m3'', ''m9''])" ex_world1
        ex_world1 "ex_bayesian [''b''] (Some [''m3'', ''m9''])" ex_world1
        "ex_fast [''b''] (Some [''m3'', ''m9''])" ex_world1]
      ex_Fit_init [of "Some [''m3'', ''m9'']"] ex_BayesianFit_init [of "Some [''m3'', ''m9'']"]
      ex_FastFit_init [of "Some [''m3'', ''m9'']"]
    by simp
qed

section \<open>Constructions that fail\<close>

lemma check_cases:
  "(\<exists>e. check_parameters keys ps = Inl e) \<or> check_parameters keys ps = Inr ()"
  "(\<exists>e. check_observables render known obs = Inl e) \<or> check_observables render known obs = Inr ()"
  "(\<exists>e. check_constrained instances obs = Inl e) \<or> check_constrained instances obs = Inr ()"
  "(\<exists>e. check_wc_function names f = Inl e) \<or> check_wc_function names f = Inr ()"
proof -
  show "(\<exists>e. check_parameters keys ps = Inl e) \<or> check_parameters keys ps = Inr ()"
    by (cases "check_parameters keys ps") simp_all
  show "(\<exists>e. check_observables render known obs = Inl e) \<or> check_observables render known obs = Inr ()"
    by (cases "check_observables render known obs") simp_all
  show "(\<exists>e. check_constrained instances obs = Inl e) \<or> check_constrained instances obs = Inr ()"
    by (cases "check_constrained instances obs") simp_all
  show "(\<exists>e. check_wc_function names f = Inl e) \<or> check_wc_function names f = Inr ()"
    by (cases "check_wc_function names f") simp_all
qed









lemma Fit_init_both_filters:
  "\<exists>e. Fit_init E nm fp np obs wcn wcf wcp sc (Some excl) (Some incl) w = Inl e"
  using check_cases(1) [of "parameters (par_obj w)" "fp @ np"]
    check_cases(2) [of "str_tuple E" "Observable_instances w" obs]
    check_cases(3) [of "Measurement_instances w" obs]
  by (auto simp: Fit_init_def)

text \<open>
  Claim C7. A construction in which both \<^verbatim>\<open>exclude_measurements\<close> and
  \<^verbatim>\<open>include_measurements\<close> are given (not \<^verbatim>\<open>None\<close>) fails with an error, for \<^verbatim>\<open>Fit\<close>,
  \<^verbatim>\<open>BayesianFit\<close> and \<^verbatim>\<open>FastFit\<close> alike: no fit object is returned.
\<close>

theorem both_filters_always_fail:
  "(\<exists>e. Fit_init E nm fp np obs wcn wcf wcp sc (Some excl) (Some incl) w = Inl e)
   \<and> (\<exists>e. BayesianFit_init E nm fp np obs wcn wcf wcp sc (Some excl) (Some incl) w = Inl e)
   \<and> (\<exists>e. FastFit_init E nm fp np obs wcn wcf wcp sc (Some excl) (Some incl) w = Inl e)"
proof -
  obtain e where "Fit_init E nm fp np obs wcn wcf wcp sc (Some excl) (Some incl) w = Inl e"
    using Fit_init_both_filters by blast
  then show ?thesis
    by (simp add: BayesianFit_init_def FastFit_init_def)
qed

section \<open>The theory distribution of a constraint block\<close>

lemma index_Inr: "index obs p = Inr i \<Longrightarrow> i < length obs \<and> obs ! i = p"
proof (induction obs arbitrary: i)
  case Nil
  then show ?case by simp
next
  case (Cons q qs)
  show ?case
  proof (cases "q = p")
    case True
    then show ?thesis using Cons.prems by simp
  next
    case False
    then obtain j where "index qs p = Inr j" "i = Suc j"
      using Cons.prems by (auto simp: and_then_Inr_iff)
    then show ?thesis using Cons.IH by simp
  qed
qed





lemma constraint_comb_zero_variance:
  assumes "index obs p = Inr i" and "i < length cov_sm" and "i < length (cov_sm ! i)"
    and "cov_sm ! i ! i = 0"
  shows "constraint_comb obs cov_sm c [p] = Inl (NameError ''DeltaDistribution'')"
  using assms
  by (simp add: constraint_comb_def submatrix_def getitems_def constraint_th_def load_global_def
      module_globals_def)

text \<open>
  Claim C2. The claim: for a constraint over exactly one observable whose theory
  variance is exactly zero, \<^verbatim>\<open>make_measurement\<close> uses a point mass at the central value and
  raises nothing. The code: a \<^verbatim>\<open>FastFit\<close> without nuisance parameters and two theory
  samples has zero theory covariance; at the first constraint of measurement \<^verbatim>\<open>m1\<close>,
  over the one observable \<^verbatim>\<open>o1\<close>, \<^verbatim>\<open>make_measurement\<close> raises \<^verbatim>\<open>NameError\<close> for the name
  \<^verbatim>\<open>DeltaDistribution\<close>, which line 10 does not import, and leaves the pseudo-measurement
  registered with no constraint.
\<close>

theorem make_measurement_zero_variance_raises:
  "FastFit_init ex_env ''f'' [''a''] [] [Obs ''o1'', Obs ''o2''] [] None None 160 None (Some [''m1'']) ex_world
     = Inr (ex_fast [] (Some [''m1'']), ex_world1)
   \<and> make_measurement ex_env (ex_fast [] (Some [''m1''])) 2 5000 ex_world1
     = (Inl (NameError ''DeltaDistribution''),
        ex_world1\<lparr>PseudoMeasurement_instances := [''fm1'' \<mapsto> []], draws := 2\<rparr>)"
  by (simp add: ex_FastFit_init0) (simp add: mm_defs ex_defs)

lemma support_range_Mat:
  assumes "support c = Mat [lower, upper]" and "1 < length lower" and "1 < length upper"
  shows "support_range c = Inr (support_extent c 1)"
  using assms by (simp add: support_range_def support_extent_def)

lemma fix_zero_entries:
  assumes "support_range c = Inr r" and "\<forall>i \<in> set idx. i < length cov"
  shows "\<exists>fixed. fix_zero c idx cov = Inr fixed \<and> length fixed = length cov
           \<and> (\<forall>i j. i < length cov \<longrightarrow> j < length (cov ! i) \<longrightarrow>
                  length (fixed ! i) = length (cov ! i)
                  \<and> fixed ! i ! j = (if i = j \<and> i \<in> set idx then (r / 100000)\<^sup>2 else cov ! i ! j))"
  using assms(2)
proof (induction idx arbitrary: cov)
  case Nil
  then show ?case by simp
next
  case (Cons k rest)
  let ?v = "(r / 100000)\<^sup>2"
  let ?cov1 = "cov[k := (cov ! k)[k := ?v]]"
  have k: "k < length cov" using Cons.prems by simp
  have "\<forall>i \<in> set rest. i < length ?cov1" using Cons.prems by simp
  from Cons.IH [OF this] obtain fixed where
    f: "fix_zero c rest ?cov1 = Inr fixed" and len: "length fixed = length ?cov1"
    and ent: "\<And>i j. i < length ?cov1 \<Longrightarrow> j < length (?cov1 ! i) \<Longrightarrow>
                length (fixed ! i) = length (?cov1 ! i)
                \<and> fixed ! i ! j = (if i = j \<and> i \<in> set rest then ?v else ?cov1 ! i ! j)"
    by blast
  have step: "fix_zero c (k # rest) cov = Inr fixed"
    by (simp add: assms(1) f)
  have rows: "length (?cov1 ! i) = length (cov ! i)" if "i < length cov" for i
    using that by (cases "i = k") simp_all
  have cell: "?cov1 ! i ! j = (if i = k \<and> j = k then ?v else cov ! i ! j)"
    if "i < length cov" and "j < length (cov ! i)" for i j
    using that by (cases "i = k"; cases "j = k") simp_all
  have "length (fixed ! i) = length (cov ! i)
        \<and> fixed ! i ! j = (if i = j \<and> i \<in> set (k # rest) then ?v else cov ! i ! j)"
    if "i < length cov" and "j < length (cov ! i)" for i j
    using ent [of i j] rows [OF that(1)] cell [OF that] that by auto
  then show ?case using step len by simp
qed

text \<open>
  What lines 404 to 410 do in general, for a constraint over several observables whose
  support has shape \<open>(2, n)\<close>: every entry off the diagonal and every diagonal entry that
  is not zero is kept, and every zero diagonal entry becomes \<open>(r / 1e5)\<^sup>2\<close> with \<open>r\<close> the
  extent of the support along the second observable, whichever entry it is.
\<close>

lemma constraint_th_multivariate:
  assumes "length ppos \<noteq> 1" and "support c = Mat [lower, upper]"
    and "1 < length lower" and "1 < length upper"
  shows "\<exists>fixed. constraint_th c cov ppos
                    = Inr (MultivariateNormalDistribution (central_value c) fixed)
           \<and> length fixed = length cov
           \<and> (\<forall>i j. i < length cov \<longrightarrow> j < length (cov ! i) \<longrightarrow>
                  fixed ! i ! j = (if i = j \<and> cov ! i ! i = 0
                                   then (support_extent c 1 / 100000)\<^sup>2 else cov ! i ! j))"
proof -
  let ?idx = "filter (\<lambda>i. np_diag cov ! i = 0) [0..<length (np_diag cov)]"
  have idx: "i \<in> set ?idx \<longleftrightarrow> i < length cov \<and> cov ! i ! i = 0" for i
    by (auto simp: np_diag_def)
  then have "\<forall>i \<in> set ?idx. i < length cov" by blast
  from fix_zero_entries [OF support_range_Mat [OF assms(2,3,4)] this] obtain fixed where
    f: "fix_zero c ?idx cov = Inr fixed" and len: "length fixed = length cov"
    and ent: "\<And>i j. i < length cov \<Longrightarrow> j < length (cov ! i) \<Longrightarrow>
                fixed ! i ! j = (if i = j \<and> i \<in> set ?idx
                                 then (support_extent c 1 / 100000)\<^sup>2 else cov ! i ! j)"
    by blast
  have "constraint_th c cov ppos = Inr (MultivariateNormalDistribution (central_value c) fixed)"
    using assms(1) by (simp add: constraint_th_def Let_def f)
  moreover have "fixed ! i ! j = (if i = j \<and> cov ! i ! i = 0
                                   then (support_extent c 1 / 100000)\<^sup>2 else cov ! i ! j)"
    if "i < length cov" and "j < length (cov ! i)" for i j
    using ent [OF that] idx [of i] that by auto
  ultimately show ?thesis using len by blast
qed

text \<open>
  Claim C3. The claim: a zero diagonal entry \<open>i\<close> of the theory covariance of a
  constraint over several observables is replaced by \<open>(r / 1e5)\<^sup>2\<close> with \<open>r\<close> the extent of
  the support along the axis of observable \<open>i\<close>. The code: line 407 reads
  \<^verbatim>\<open>support.T[1]\<close> whatever \<open>i\<close> is. For measurement \<^verbatim>\<open>m2\<close>, whose support has extent 1
  along the first and 10 along the second observable, both zero diagonal entries
  become \<open>(10 / 1e5)\<^sup>2\<close>; the claim gives \<open>(1 / 1e5)\<^sup>2\<close> for the first.
\<close>

theorem make_measurement_support_axis:
  "FastFit_init ex_env ''f'' [''a''] [] [Obs ''o1'', Obs ''o2''] [] None None 160 None (Some [''m2'']) ex_world
     = Inr (ex_fast [] (Some [''m2'']), ex_world1)
   \<and> make_measurement ex_env (ex_fast [] (Some [''m2''])) 2 5000 ex_world1
     = (Inr (),
        ex_world1\<lparr>PseudoMeasurement_instances := [''fm2'' \<mapsto>
           [(convolve_distributions [Experimental ex_c12,
               MultivariateNormalDistribution (Vec [1 / 2, 5])
                 [[(support_extent ex_c12 1 / 100000)\<^sup>2, 0],
                  [0, (support_extent ex_c12 1 / 100000)\<^sup>2]]],
             [Obs ''o1'', Obs ''o2''])]], draws := 2\<rparr>)
   \<and> support_extent ex_c12 0 = 1 \<and> support_extent ex_c12 1 = 10
   \<and> (support_extent ex_c12 1 / 100000)\<^sup>2 \<noteq> (support_extent ex_c12 0 / 100000)\<^sup>2"
  by (simp add: ex_FastFit_init0) (simp add: mm_defs ex_defs support_extent_def)

section \<open>Evaluation leaves the fit unchanged\<close>

lemma heap_extends_refl: "heap_extends w w"
  by (simp add: heap_extends_def)

lemma heap_extends_trans: "heap_extends w w1 \<Longrightarrow> heap_extends w1 w2 \<Longrightarrow> heap_extends w w2"
  by (auto simp: heap_extends_def)


lemma then_w_extends:
  assumes "heap_extends w (snd m)"
    and "\<And>v w1. m = (Inr v, w1) \<Longrightarrow> heap_extends w1 (snd (f v w1))"
  shows "heap_extends w (snd (then_w m f))"
proof (cases m)
  case (Pair r w1)
  show ?thesis
  proof (cases r)
    case (Inl e)
    then show ?thesis using assms(1) Pair by simp
  next
    case (Inr v)
    then have "heap_extends w1 (snd (f v w1))" using assms(2) Pair by simp
    then show ?thesis using assms(1) Pair Inr by (auto intro: heap_extends_trans)
  qed
qed

lemma then_w_pure_extends:
  assumes "\<And>v. r = Inr v \<Longrightarrow> heap_extends w (snd (f v w))"
  shows "heap_extends w (snd (then_w (r, w) f))"
  using assms by (cases r) (simp_all add: heap_extends_refl)

lemma alloc_update_extends:
  "heap_extends w (dict_update (next_addr w) d' (snd (alloc d w)))"
  "heap_extends w (dict_update (next_addr w) d'' (dict_update (next_addr w) d' (snd (alloc d w))))"
  "heap_extends w (snd (alloc d w))"
  by (simp_all add: heap_extends_def dict_update_def alloc_def)


lemma FastFit_get_par_dict_extends:
  "heap_extends w (snd (FastFit_get_par_dict self x w))"
  unfolding FastFit_get_par_dict_def
  by (cases "FastFit_array_to_dict self x")
    (auto simp: heap_extends_refl alloc_def getitem_d_def heap_extends_def dict_update_def
      split: option.splits)

lemma get_predictions_extends:
  assumes "\<And>w. heap_extends w (snd (get_par_dict self x w))"
  shows "heap_extends w (snd (get_predictions get_par_dict array_to_dict E self x w))"
  unfolding get_predictions_def
  by (intro then_w_extends then_w_pure_extends assms) (simp add: heap_extends_refl)



lemma FastFit_log_likelihood_extends:
  "heap_extends w (snd (FastFit_log_likelihood E self x w))"
  unfolding FastFit_log_likelihood_def
  by (intro then_w_extends get_predictions_extends FastFit_get_par_dict_extends)
    (simp add: heap_extends_refl)









section \<open>The loops of make_measurement\<close>

lemma add_constraint_fields:
  "Measurement_instances (add_constraint pm ps comb w) = Measurement_instances w"
  "draws (add_constraint pm ps comb w) = draws w"
  "Measurement_instances (PseudoMeasurement pm w) = Measurement_instances w"
  "draws (PseudoMeasurement pm w) = draws w"
  by (simp_all add: add_constraint_def PseudoMeasurement_def)

lemma constraints_loop_fields:
  "Measurement_instances (snd (constraints_loop obs cov_sm pm cs w)) = Measurement_instances w
   \<and> draws (snd (constraints_loop obs cov_sm pm cs w)) = draws w
   \<and> fst (constraints_loop obs cov_sm pm cs w) = first_error obs cov_sm cs"
proof (induction cs arbitrary: w)
  case Nil
  then show ?case by simp
next
  case (Cons b cs)
  obtain c ps where b: "b = (c, ps)" by (cases b)
  show ?case
    by (cases "constraint_comb obs cov_sm c ps") (simp_all add: b Cons.IH add_constraint_fields)
qed



lemma measurements_loop_fields:
  "Measurement_instances (snd (measurements_loop self cov_sm ms w)) = Measurement_instances w
   \<and> draws (snd (measurements_loop self cov_sm ms w)) = draws w"
proof (induction ms arbitrary: w)
  case Nil
  then show ?case by simp
next
  case (Cons m ms)
  show ?case
  proof (cases "map_of (Measurement_instances w) m")
    case None
    then show ?thesis by simp
  next
    case (Some m_obj)
    let ?r = "constraints_loop (observables self) cov_sm (name self @ m) (constraints m_obj)
                (PseudoMeasurement (name self @ m) w)"
    have f: "Measurement_instances (snd ?r) = Measurement_instances w" "draws (snd ?r) = draws w"
      by (simp_all add: constraints_loop_fields add_constraint_fields)
    show ?thesis
    proof (cases ?r)
      case (Pair res w2)
      then show ?thesis
        using f Cons.IH [of w2] by (cases res) (simp_all add: Some)
    qed
  qed
qed


lemma par_random_fields:
  "Measurement_instances (snd (par_random nuisance pc n w)) = Measurement_instances w
   \<and> draws (snd (par_random nuisance pc n w)) \<le> draws w + n"
proof (induction n arbitrary: w)
  case 0
  then show ?case by simp
next
  case (Suc n)
  let ?w = "w\<lparr>draws := Suc (draws w)\<rparr>"
  show ?case
  proof (cases "random_nuisance_dict (par_obj w) nuisance pc (draws w)")
    case (Inl e)
    then show ?thesis by simp
  next
    case (Inr par)
    show ?thesis
    proof (cases "par_random nuisance pc n ?w")
      case (Pair res w2)
      then show ?thesis
        using Suc.IH [of ?w] Inr by (cases res) simp_all
    qed
  qed
qed

lemma get_covariance_sm_fields:
  "Measurement_instances (snd (get_covariance_sm E self N w)) = Measurement_instances w
   \<and> draws (snd (get_covariance_sm E self N w)) \<le> draws w + N"
proof (cases "par_random (nuisance_parameters self) (get_central_all (par_obj w)) N w")
  case (Pair res w2)
  show ?thesis
  proof (cases res)
    case (Inl e)
    then show ?thesis
      using Pair par_random_fields [of "nuisance_parameters self" "get_central_all (par_obj w)" N w]
      by (simp add: get_covariance_sm_def)
  next
    case (Inr pars)
    then show ?thesis
      using Pair par_random_fields [of "nuisance_parameters self" "get_central_all (par_obj w)" N w]
      by (cases "map_err (pred_row E (Observable_instances w2) pars) (observables self)")
        (simp_all add: get_covariance_sm_def)
  qed
qed



text \<open>
  Claim C8. For every \<^verbatim>\<open>FastFit\<close> and every number \<open>N\<close> of theory samples, the outcome of
  \<^verbatim>\<open>make_measurement\<close> and the world it leaves behind are the same for all values of
  \<^verbatim>\<open>Nexp\<close>. It takes at most \<open>N\<close> samples, those of \<^verbatim>\<open>_get_covariance_sm\<close>, whatever \<^verbatim>\<open>Nexp\<close>
  is, and \<^verbatim>\<open>log_likelihood\<close> takes none.
\<close>

theorem make_measurement_ignores_Nexp:
  "make_measurement E self N Nexp w = make_measurement E self N Nexp' w
   \<and> draws (snd (make_measurement E self N Nexp w)) \<le> draws w + N
   \<and> draws (snd (FastFit_log_likelihood E self x w)) = draws w"
proof -
  have "draws (snd (make_measurement E self N Nexp w)) \<le> draws w + N"
  proof (cases "get_covariance_sm E self N w")
    case (Pair res w1)
    then show ?thesis
      using get_covariance_sm_fields [of E self N w]
      by (cases res) (simp_all add: make_measurement_def measurements_loop_fields)
  qed
  moreover have "draws (snd (FastFit_log_likelihood E self x w)) = draws w"
    using FastFit_log_likelihood_extends [of w E self x] by (simp add: heap_extends_def)
  ultimately show ?thesis by (simp add: make_measurement_def)
qed




end
